theory Spec2Isabelle
  imports Main "HOL-Library.Word" "HOL-Library.Log_Nat"
begin

unbundle bit_operations_syntax

section \<open>Data model\<close>

text \<open>
  Go's \<^verbatim>\<open>string\<close> is a byte sequence and is modelled as \<^typ>\<open>string\<close>; \<^verbatim>\<open>[]byte\<close> is
  a list of 8-bit words, and the conversion \<^verbatim>\<open>[]byte(s)\<close> is written out. A nil slice
  and an empty slice are both the empty list (\<^verbatim>\<open>bytes.Compare\<close> and \<^verbatim>\<open>len\<close> do not
  tell them apart).
\<close>

type_synonym bytes = "8 word list"

definition bytes_of_string :: "string \<Rightarrow> bytes" where
  "bytes_of_string s = map (\<lambda>c. word_of_nat (of_char c)) s"

text \<open>\<^verbatim>\<open>time.Duration\<close> is an int64 count of nanoseconds.\<close>

type_synonym Duration = "64 word"

definition Second :: Duration where
  "Second = 1000000000"

subsection \<open>Constants of the package\<close>

definition CacheChannelName :: string where
  "CacheChannelName = ''blocky_sync''"

definition CacheStorePrefix :: string where
  "CacheStorePrefix = ''blocky:cache:''"

definition chanCap :: nat where
  "chanCap = 1000"

definition cacheReason :: string where
  "cacheReason = ''EXTERNAL_CACHE''"

definition defaultCacheTime :: Duration where
  "defaultCacheTime = 1 * Second"

subsection \<open>DNS messages (the declarations of the DNS library used by the package)\<close>

text \<open>
  The structs \<^verbatim>\<open>RR_Header\<close>, \<^verbatim>\<open>Question\<close>, \<^verbatim>\<open>MsgHdr\<close> and \<^verbatim>\<open>Msg\<close>. Field names
  are the library's, but for those that would clash: \<open>QName\<close> is the \<^verbatim>\<open>Name\<close> of a
  question, \<open>Response_bit\<close> the \<^verbatim>\<open>Response\<close> flag of the header, \<open>Hdr\<close> the embedded
  \<^verbatim>\<open>MsgHdr\<close> and \<open>Questions\<close> the \<^verbatim>\<open>Question\<close> section of a message.
\<close>

record RR_Header =
  Name :: string
  Rrtype :: "16 word"
  Class :: "16 word"
  Ttl :: "32 word"
  Rdlength :: "16 word"

text \<open>
  A resource record is an interface value with a \<^verbatim>\<open>Header()\<close>; its type-specific data
  is kept as opaque bytes.
\<close>

record RR =
  Header :: RR_Header
  Rdata :: bytes

record Question =
  QName :: string
  Qtype :: "16 word"
  Qclass :: "16 word"

record MsgHdr =
  Id :: "16 word"
  Response_bit :: bool
  Opcode :: int
  Authoritative :: bool
  Truncated :: bool
  RecursionDesired :: bool
  RecursionAvailable :: bool
  Zero :: bool
  AuthenticatedData :: bool
  CheckingDisabled :: bool
  Rcode :: int

record Msg =
  Hdr :: MsgHdr
  Compress :: bool
  Questions :: "Question list"
  Answer :: "RR list"
  Ns :: "RR list"
  Extra :: "RR list"

text \<open>
  \<^verbatim>\<open>*dns.Msg\<close> values handed to the package by its callers live in a store; a pointer
  is an address, \<^verbatim>\<open>nil\<close> is \<^term>\<open>None\<close>.
\<close>

type_synonym addr = nat

type_synonym heap = "addr \<Rightarrow> Msg"

subsection \<open>Messages of the package\<close>

text \<open>\<^verbatim>\<open>bufferMessage\<close>: an item of the send buffer.\<close>

record bufferMessage =
  buf_Key :: string
  buf_Message :: "addr option"

text \<open>\<^verbatim>\<open>redisMessage\<close>: the pub/sub envelope.\<close>

record redisMessage =
  K :: string
  M :: bytes
  C :: bytes

text \<open>
  Modelled from the spec: the response type of package \<^verbatim>\<open>model\<close> is declared outside
  the file; a response carries a response-type marker, a fixed reason tag and the
  decoded answer. Only the marker \<^verbatim>\<open>ResponseTypeCACHED\<close> is used here.
\<close>

datatype ResponseType =
  ResponseTypeRESOLVED | ResponseTypeCACHED | ResponseTypeBLOCKED
  | ResponseTypeCONDITIONAL | ResponseTypeCUSTOMDNS

record Response =
  Res :: Msg
  Reason :: string
  RType :: ResponseType

text \<open>\<^verbatim>\<open>CacheMessage\<close>: what the consumer reads from \<^verbatim>\<open>CacheChannel\<close>.\<close>

record CacheMessage =
  Key :: string
  Response :: Response

text \<open>A message of the pub/sub subscription.\<close>

record redis_Message =
  Channel :: string
  Pattern :: string
  Payload :: string

subsection \<open>Errors, the external codecs and the broker\<close>

datatype error = ErrJSON | ErrPack | ErrUnpack | ErrRedis | ErrRedisNil

text \<open>
  The DNS wire codec (\<^verbatim>\<open>Pack\<close>, \<^verbatim>\<open>Unpack\<close>) and the JSON codec of the envelope
  (\<^verbatim>\<open>json.Marshal\<close>, \<^verbatim>\<open>json.Unmarshal\<close>) are external and opaque: parameters.
  \<^verbatim>\<open>Pack\<close> is a method on the pointer it is called on and may write to that
  message: it gives the message as it leaves it, and what it returns. The last field
  is the one conversion whose result the language leaves to the implementation: that
  of a float64 whose integer part, the argument, is beyond the range of \<^verbatim>\<open>uint32\<close>.
\<close>

record Codec =
  Pack :: "Msg \<Rightarrow> Msg \<times> (error + bytes)"
  Unpack :: "bytes \<Rightarrow> error + Msg"
  Marshal :: "redisMessage \<Rightarrow> error + bytes"
  Unmarshal :: "bytes \<Rightarrow> error + redisMessage"
  uint32_beyond :: "nat \<Rightarrow> 32 word"

text \<open>
  The broker answers the commands sent to it: the value and remaining TTL it reports
  for a key, the keys its scan iterator yields, and whether a write or a broadcast
  failed.
\<close>

record Broker =
  Get :: "string \<Rightarrow> error + string"
  TTL :: "string \<Rightarrow> error + Duration"
  Scan :: "string \<Rightarrow> string list"
  Set :: "string \<Rightarrow> bytes \<Rightarrow> Duration \<Rightarrow> error option"
  Publish :: "string \<Rightarrow> bytes \<Rightarrow> error option"

datatype redis_cmd =
  ScanCmd string
  | GetCmd string
  | TTLCmd string
  | SetCmd string bytes Duration
  | PublishCmd string bytes

datatype log_entry = Debug string | Error string error

text \<open>
  The client. Field \<open>l\<close> is the logger, modelled by the entries written to it (the
  fixed text of an entry, and the error it reports); field \<open>client\<close> is the broker
  connection, modelled by the commands issued on it, each with the error the broker
  answered (\<^term>\<open>None\<close> for success). Field \<open>client_id\<close> is the field \<^verbatim>\<open>id\<close>. The
  two channels are FIFO queues of capacity \<^term>\<open>chanCap\<close>. The configuration and the
  context are not used by the operations below.
\<close>

record Client =
  client :: "(redis_cmd \<times> error option) list"
  l :: "log_entry list"
  client_id :: bytes
  sendBuffer :: "bufferMessage list"
  CacheChannel :: "CacheMessage list"

text \<open>
  What a call or a branch of the loop comes to: it completes, it waits on a channel
  (a send on a full channel, a receive on an empty one), or it panics.
\<close>

datatype 'a outcome = Done 'a | Blocked | Panic

section \<open>Operations\<close>

subsection \<open>Key namespacing\<close>

definition prefixKey :: "string \<Rightarrow> string" where
  "prefixKey key = CacheStorePrefix @ key"

text \<open>\<^verbatim>\<open>strings.TrimPrefix\<close>: the prefix is cut off when the key starts with it.\<close>

definition cleanKey :: "string \<Rightarrow> string" where
  "cleanKey key =
     (if length CacheStorePrefix \<le> length key
         \<and> take (length CacheStorePrefix) key = CacheStorePrefix
      then drop (length CacheStorePrefix) key
      else key)"

subsection \<open>TTL policy\<close>

text \<open>The loop of \<^verbatim>\<open>getTTL\<close>: the running maximum of the answer records' TTLs.\<close>

primrec getTTL_loop :: "RR list \<Rightarrow> 32 word \<Rightarrow> 32 word" where
  "getTTL_loop [] ttl = ttl"
| "getTTL_loop (a # as) ttl =
     getTTL_loop as (if ttl < Ttl (Header a) then Ttl (Header a) else ttl)"

text \<open>\<^verbatim>\<open>getTTL\<close> (the receiver is not used).\<close>

definition getTTL :: "Msg \<Rightarrow> Duration" where
  "getTTL dns =
     (let ttl = getTTL_loop (Answer dns) 0
      in if ttl = 0 then defaultCacheTime else ucast ttl * Second)"

text \<open>
  \<^verbatim>\<open>ttl.Seconds()\<close> is computed in float64:
  \<^verbatim>\<open>float64(sec) + float64(nsec)/1e9\<close> with \<^verbatim>\<open>sec = d / Second\<close> and
  \<^verbatim>\<open>nsec = d % Second\<close>. A float64 is kept as the fraction of two naturals that is its
  value. The two conversions of integers are exact (both are below \<open>2 ^ 53\<close>); the
  division and the addition round their exact result to the nearest float64, ties to
  even. All values lie in the normal range of the format.
\<close>

text \<open>The integer nearest to \<open>a / b\<close>, ties to even.\<close>

definition round_even :: "nat \<Rightarrow> nat \<Rightarrow> nat" where
  "round_even a b =
     (let q = a div b; r = a mod b
      in if 2 * r < b then q else if b < 2 * r then q + 1 else if even q then q else q + 1)"

text \<open>
  The float64 nearest to \<open>a / b\<close>: a significand of 53 bits. For \<open>a / b \<ge> 1\<close> the
  integer part has \<open>bits\<close> binary digits and the unit in the last place is
  \<open>2 ^ (bits - 53)\<close>; for \<open>a / b < 1\<close>, with \<open>k\<close> the least number such that
  \<open>2 ^ k * a \<ge> b\<close>, it is \<open>1 / 2 ^ (52 + k)\<close>.
\<close>

definition float64_round :: "nat \<Rightarrow> nat \<Rightarrow> nat \<times> nat" where
  "float64_round a b =
     (if a = 0 then (0, 1)
      else if b \<le> a then
        (let bits = floorlog 2 (a div b)
         in if 53 \<le> bits
            then (round_even a (b * 2 ^ (bits - 53)) * 2 ^ (bits - 53), 1)
            else (round_even (a * 2 ^ (53 - bits)) b, 2 ^ (53 - bits)))
      else
        (let k = floorlog 2 ((b - 1) div a)
         in (round_even (a * 2 ^ (52 + k)) b, 2 ^ (52 + k))))"

text \<open>\<^verbatim>\<open>Seconds\<close> of a duration of \<open>d\<close> nanoseconds, \<open>d \<ge> 0\<close>.\<close>

definition Seconds :: "nat \<Rightarrow> nat \<times> nat" where
  "Seconds d =
     (let sec = d div 1000000000;
          nsec = d mod 1000000000;
          q = float64_round nsec 1000000000
      in float64_round (sec * snd q + fst q) (snd q))"

text \<open>
  \<^verbatim>\<open>uint32(ttl.Seconds())\<close>, which the package evaluates for a positive \<open>ttl\<close> only:
  the conversion drops the fraction.
\<close>

definition Seconds_uint32 :: "Codec \<Rightarrow> Duration \<Rightarrow> 32 word" where
  "Seconds_uint32 codec d =
     (let s = Seconds (nat (sint d)); v = fst s div snd s
      in if v < 2 ^ 32 then word_of_nat v else uint32_beyond codec v)"

subsection \<open>Envelope codec\<close>

text \<open>
  \<^verbatim>\<open>convertMessage\<close>: unpack the payload; with a positive remaining TTL, stamp it on
  the records of the answer section.
\<close>

definition convertMessage :: "Codec \<Rightarrow> redisMessage \<Rightarrow> Duration \<Rightarrow> error + CacheMessage" where
  "convertMessage codec message ttl =
     (case Unpack codec (M message) of
        Inl err \<Rightarrow> Inl err
      | Inr dns \<Rightarrow>
          Inr \<lparr>Key = K message,
               Response = \<lparr>
                 Res = (if 0 <s ttl
                        then dns\<lparr>Answer :=
                               map (\<lambda>a. a\<lparr>Header :=
                                            (Header a)\<lparr>Ttl := Seconds_uint32 codec ttl\<rparr>\<rparr>)
                                 (Answer dns)\<rparr>
                        else dns),
                 Reason = cacheReason,
                 RType = ResponseTypeCACHED\<rparr>\<rparr>)"

subsection \<open>Channels\<close>

text \<open>\<^verbatim>\<open>c.CacheChannel <- m\<close>: the send waits while the channel is full.\<close>

definition send_CacheChannel :: "Client \<Rightarrow> CacheMessage \<Rightarrow> Client outcome" where
  "send_CacheChannel c m =
     (if length (CacheChannel c) < chanCap
      then Done (c\<lparr>CacheChannel := CacheChannel c @ [m]\<rparr>)
      else Blocked)"

subsection \<open>Publishing\<close>

text \<open>\<^verbatim>\<open>PublishCache\<close>.\<close>

definition PublishCache :: "Client \<Rightarrow> string \<Rightarrow> addr option \<Rightarrow> Client outcome" where
  "PublishCache c key message =
     (if 0 < length key \<and> message \<noteq> None
      then (if length (sendBuffer c) < chanCap
            then Done (c\<lparr>sendBuffer :=
                          sendBuffer c @ [\<lparr>buf_Key = key, buf_Message = message\<rparr>]\<rparr>)
            else Blocked)
      else Done c)"

subsection \<open>Bulk load\<close>

text \<open>\<^verbatim>\<open>getResponse\<close>: the client after the call, and the pair the call returns.\<close>

definition getResponse ::
  "Broker \<Rightarrow> Codec \<Rightarrow> Client \<Rightarrow> string \<Rightarrow> Client \<times> (error + CacheMessage)" where
  "getResponse b codec c key =
     (let c1 = c\<lparr>client := client c @ [(GetCmd key, case Get b key of Inl e \<Rightarrow> Some e | Inr _ \<Rightarrow> None)]\<rparr>
      in case Get b key of
           Inl err \<Rightarrow> (c1\<lparr>l := l c1 @ [Error ''Conversion error: '' err]\<rparr>, Inl err)
         | Inr resp \<Rightarrow>
             (let c2 = c1\<lparr>client := client c1 @ [(TTLCmd key, case TTL b key of Inl e \<Rightarrow> Some e | Inr _ \<Rightarrow> None)]\<rparr>
              in case TTL b key of
                   Inl err \<Rightarrow> (c2\<lparr>l := l c2 @ [Error ''Conversion error: '' err]\<rparr>, Inl err)
                 | Inr ttl \<Rightarrow>
                     (case convertMessage codec
                             \<lparr>K = cleanKey key, M = bytes_of_string resp, C = []\<rparr> ttl of
                        Inl err \<Rightarrow> (c2\<lparr>l := l c2 @ [Error ''Conversion error: '' err]\<rparr>, Inl err)
                      | Inr result \<Rightarrow> (c2, Inr result))))"

text \<open>The loop of \<^verbatim>\<open>GetRedisCache\<close> over the keys the scan iterator yields.\<close>

fun GetRedisCache_loop :: "Broker \<Rightarrow> Codec \<Rightarrow> Client \<Rightarrow> string list \<Rightarrow> Client outcome" where
  "GetRedisCache_loop b codec c [] = Done c"
| "GetRedisCache_loop b codec c (key # keys) =
     (case getResponse b codec c key of
        (c', Inr response) \<Rightarrow>
          (case send_CacheChannel c' response of
             Done c'' \<Rightarrow> GetRedisCache_loop b codec c'' keys
           | Blocked \<Rightarrow> Blocked
           | Panic \<Rightarrow> Panic)
      | (c', Inl err) \<Rightarrow>
          GetRedisCache_loop b codec (c'\<lparr>l := l c' @ [Error ''GetRedisCache '' err]\<rparr>) keys)"

text \<open>\<^verbatim>\<open>GetRedisCache\<close>, with the body of the goroutine it starts.\<close>

definition GetRedisCache :: "Broker \<Rightarrow> Codec \<Rightarrow> Client \<Rightarrow> Client outcome" where
  "GetRedisCache b codec c =
     GetRedisCache_loop b codec
       (c\<lparr>l := l c @ [Debug ''GetRedisCache''],
          client := client c @ [(ScanCmd (prefixKey ''*''), None)]\<rparr>)
       (Scan b (prefixKey ''*''))"

subsection \<open>The coordinating loop of \<^verbatim>\<open>startup\<close>\<close>

text \<open>The branch \<^verbatim>\<open>case msg := <-ps.Channel()\<close>.\<close>

definition startup_recv :: "Codec \<Rightarrow> Client \<Rightarrow> redis_Message option \<Rightarrow> Client outcome" where
  "startup_recv codec c msg =
     (let c1 = c\<lparr>l := l c @ [Debug ''Received message: '']\<rparr>
      in case msg of
           None \<Rightarrow> Done c1
         | Some m \<Rightarrow>
             (if 0 < length (Payload m)
              then (case Unmarshal codec (bytes_of_string (Payload m)) of
                      Inl err \<Rightarrow> Done (c1\<lparr>l := l c1 @ [Error ''Conversion error: '' err]\<rparr>)
                    | Inr rm \<Rightarrow>
                        (if C rm \<noteq> client_id c1
                         then (case convertMessage codec rm 0 of
                                 Inl err \<Rightarrow> Done c1
                               | Inr cm \<Rightarrow> send_CacheChannel c1 cm)
                         else Done c1))
              else Done c1))"

text \<open>
  The branch \<^verbatim>\<open>case s := <-c.sendBuffer\<close>. The assignment to \<^verbatim>\<open>Compress\<close> goes through
  the pointer of the queued item, and \<^verbatim>\<open>Pack\<close> is called on that pointer: both write
  to the store, and \<^verbatim>\<open>getTTL\<close> reads the message as \<^verbatim>\<open>Pack\<close> left it.
\<close>

definition startup_send :: "Broker \<Rightarrow> Codec \<Rightarrow> Client \<times> heap \<Rightarrow> (Client \<times> heap) outcome" where
  "startup_send b codec st =
     (case st of (c, h) \<Rightarrow>
        (case sendBuffer c of
           [] \<Rightarrow> Blocked
         | s # rest \<Rightarrow>
             (case buf_Message s of
                None \<Rightarrow> Panic
              | Some p \<Rightarrow>
                  (let c1 = c\<lparr>sendBuffer := rest\<rparr>;
                       packed = Pack codec ((h p)\<lparr>Compress := True\<rparr>);
                       origRes = fst packed;
                       h1 = h(p := origRes)
                   in case snd packed of
                        Inl pErr \<Rightarrow> Done (c1, h1)
                      | Inr binRes \<Rightarrow>
                          (let c2 =
                                 (case Marshal codec
                                         \<lparr>K = buf_Key s, M = binRes, C = client_id c1\<rparr> of
                                    Inl mErr \<Rightarrow> c1
                                  | Inr binMsg \<Rightarrow>
                                      c1\<lparr>client := client c1 @
                                            [(PublishCmd CacheChannelName binMsg,
                                              Publish b CacheChannelName binMsg)]\<rparr>)
                           in Done
                                (c2\<lparr>client := client c2 @
                                       [(SetCmd (prefixKey (buf_Key s)) binRes (getTTL origRes),
                                         Set b (prefixKey (buf_Key s)) binRes (getTTL origRes))]\<rparr>,
                                 h1))))))"

text \<open>
  The \<^verbatim>\<open>select\<close> of the loop takes whichever branch is ready; an event names the branch
  taken and, for the subscription, the message received.
\<close>

datatype event = Received "redis_Message option" | Buffered

definition startup_step ::
  "Broker \<Rightarrow> Codec \<Rightarrow> event \<Rightarrow> Client \<times> heap \<Rightarrow> (Client \<times> heap) outcome" where
  "startup_step b codec ev st =
     (case ev of
        Received msg \<Rightarrow>
          (case startup_recv codec (fst st) msg of
             Done c' \<Rightarrow> Done (c', snd st)
           | Blocked \<Rightarrow> Blocked
           | Panic \<Rightarrow> Panic)
      | Buffered \<Rightarrow> startup_send b codec st)"

text \<open>The loop over the events of a run: it goes on after every completed branch.\<close>

fun startup_loop ::
  "Broker \<Rightarrow> Codec \<Rightarrow> event list \<Rightarrow> Client \<times> heap \<Rightarrow> (Client \<times> heap) outcome" where
  "startup_loop b codec [] st = Done st"
| "startup_loop b codec (ev # evs) st =
     (case startup_step b codec ev st of
        Done st' \<Rightarrow> startup_loop b codec evs st'
      | Blocked \<Rightarrow> Blocked
      | Panic \<Rightarrow> Panic)"

section \<open>Reference definitions and sample data\<close>


text \<open>A sample answer: two address records with TTLs of 300 and 60 seconds.\<close>

definition rr_ex :: "32 word \<Rightarrow> RR" where
  "rr_ex t =
     \<lparr>Header = \<lparr>Name = ''example.com.'', Rrtype = 1, Class = 1, Ttl = t, Rdlength = 4\<rparr>,
      Rdata = [1, 2, 3, 4]\<rparr>"

definition dns_ex :: Msg where
  "dns_ex =
     \<lparr>Hdr = \<lparr>Id = 7, Response_bit = True, Opcode = 0, Authoritative = False,
             Truncated = False, RecursionDesired = True, RecursionAvailable = True,
             Zero = False, AuthenticatedData = False, CheckingDisabled = False,
             Rcode = 0\<rparr>,
      Compress = False,
      Questions = [\<lparr>QName = ''example.com.'', Qtype = 1, Qclass = 1\<rparr>],
      Answer = [rr_ex 300, rr_ex 60],
      Ns = [],
      Extra = []\<rparr>"

text \<open>
  A stub of the external codecs that knows one answer and one key: the sample answer
  packs to the bytes 1, 2, which unpack to the sample answer (with \<^verbatim>\<open>Compress\<close>
  unset, as it is not on the wire), and packing leaves the message as it is; an
  envelope for the key is the byte 3 followed by the origin identifier.
\<close>

definition codec_ex :: Codec where
  "codec_ex =
     \<lparr>Pack = (\<lambda>m. (m, if m = dns_ex\<lparr>Compress := True\<rparr> then Inr [1, 2] else Inl ErrPack)),
      Unpack = (\<lambda>bs. if bs = [1, 2] then Inr dns_ex else Inl ErrUnpack),
      Marshal = (\<lambda>rm. if K rm = ''example.com/A'' \<and> M rm = [1, 2]
                       then Inr (3 # C rm) else Inl ErrJSON),
      Unmarshal = (\<lambda>bs. case bs of
                      [] \<Rightarrow> Inl ErrJSON
                    | x # cs \<Rightarrow>
                        if x = 3 then Inr \<lparr>K = ''example.com/A'', M = [1, 2], C = cs\<rparr>
                        else Inl ErrJSON),
      uint32_beyond = (\<lambda>v. word_of_nat v)\<rparr>"

text \<open>The record the package builds for a key and an answer.\<close>

definition rec_ex :: "string \<Rightarrow> Msg \<Rightarrow> CacheMessage" where
  "rec_ex key dns =
     \<lparr>Key = key,
      Response = \<lparr>Res = dns, Reason = ''EXTERNAL_CACHE'', RType = ResponseTypeCACHED\<rparr>\<rparr>"

text \<open>
  A stub broker. Its scan yields four keys: \<open>a\<close>, \<open>b\<close> and \<open>c\<close> hold the packed
  sample answer with remaining TTLs of 10 seconds, 0 seconds and 50 seconds; \<open>bad\<close>
  holds bytes that are no DNS message. Every write and every broadcast fails.
\<close>

definition broker_ex :: Broker where
  "broker_ex =
     \<lparr>Get = (\<lambda>key. if key = ''blocky:cache:bad'' then Inr ''junk''
                   else Inr [CHR 0x01, CHR 0x02]),
      TTL = (\<lambda>key. if key = ''blocky:cache:a'' then Inr (10 * Second)
                   else if key = ''blocky:cache:b'' then Inr 0
                   else Inr (50 * Second)),
      Scan = (\<lambda>pat. [''blocky:cache:a'', ''blocky:cache:b'', ''blocky:cache:bad'',
                      ''blocky:cache:c'']),
      Set = (\<lambda>key v ttl. Some ErrRedis),
      Publish = (\<lambda>ch v. Some ErrRedis)\<rparr>"

text \<open>
  A stub broker with one stored key, holding the packed sample answer with a remaining
  TTL reported as 0.
\<close>

definition broker_one :: Broker where
  "broker_one =
     \<lparr>Get = (\<lambda>key. Inr [CHR 0x01, CHR 0x02]),
      TTL = (\<lambda>key. Inr 0),
      Scan = (\<lambda>pat. [''blocky:cache:example.com/A'']),
      Set = (\<lambda>key v ttl. None),
      Publish = (\<lambda>ch v. None)\<rparr>"

text \<open>A client with the origin identifier 9 and empty channels.\<close>

definition client_ex :: Client where
  "client_ex = \<lparr>client = [], l = [], client_id = [9], sendBuffer = [], CacheChannel = []\<rparr>"

text \<open>A store in which every address holds the sample answer.\<close>

definition heap_ex :: heap where
  "heap_ex = (\<lambda>p. dns_ex)"

text \<open>
  A stub of the JSON codec on one envelope, as \<^verbatim>\<open>encoding/json\<close> treats it: the key
  is the single byte FF, which is not valid UTF-8, and \<^verbatim>\<open>json.Marshal\<close> writes the
  escape of the replacement character U+FFFD for it; \<^verbatim>\<open>json.Unmarshal\<close> reads the
  key back as the three bytes EF BF BD of that character. The payload is the JSON
  object with the fields \<open>K\<close> (a backslash and \<open>ufffd\<close>), \<open>M\<close> (\<open>AQI=\<close>, the
  base64 of the bytes 1, 2) and \<open>C\<close> (\<open>CQ==\<close>, the base64 of the byte 9).
\<close>

definition payload_ff :: string where
  "payload_ff =
     [CHR 0x7B, CHR 0x22, CHR 0x4B, CHR 0x22, CHR 0x3A, CHR 0x22, CHR 0x5C, CHR 0x75,
      CHR 0x66, CHR 0x66, CHR 0x66, CHR 0x64, CHR 0x22, CHR 0x2C, CHR 0x22, CHR 0x4D,
      CHR 0x22, CHR 0x3A, CHR 0x22, CHR 0x41, CHR 0x51, CHR 0x49, CHR 0x3D, CHR 0x22,
      CHR 0x2C, CHR 0x22, CHR 0x43, CHR 0x22, CHR 0x3A, CHR 0x22, CHR 0x43, CHR 0x51,
      CHR 0x3D, CHR 0x3D, CHR 0x22, CHR 0x7D]"

definition codec_json :: Codec where
  "codec_json =
     codec_ex\<lparr>
       Marshal := (\<lambda>rm. if rm = \<lparr>K = [CHR 0xFF], M = [1, 2], C = [9]\<rparr>
                        then Inr (bytes_of_string payload_ff) else Inl ErrJSON),
       Unmarshal := (\<lambda>bs. if bs = bytes_of_string payload_ff
                          then Inr \<lparr>K = [CHR 0xEF, CHR 0xBF, CHR 0xBD], M = [1, 2], C = [9]\<rparr>
                          else Inl ErrJSON)\<rparr>"








section \<open>Properties\<close>

subsection \<open>Auxiliary facts\<close>

lemma getTTL_loop_fold:
  "getTTL_loop as t = fold max (map (\<lambda>a. Ttl (Header a)) as) t"
  by (induction as arbitrary: t) (auto simp: max_def)

lemma getTTL_loop_Max:
  "getTTL_loop as t = Max (insert t ((\<lambda>a. Ttl (Header a)) ` set as))"
proof -
  have "Max (set (t # map (\<lambda>a. Ttl (Header a)) as)) =
          fold max (map (\<lambda>a. Ttl (Header a)) as) t"
    by (rule Max.set_eq_fold)
  then show ?thesis by (simp add: getTTL_loop_fold)
qed

lemma getTTL_loop_zero:
  "\<forall>a\<in>set as. Ttl (Header a) = 0 \<Longrightarrow> getTTL_loop as 0 = 0"
  by (induction as) auto

lemma Max_Ttl_insert_0:
  assumes "\<exists>a\<in>set as. 0 < Ttl (Header a)"
  shows "Max (insert 0 ((\<lambda>a. Ttl (Header a)) ` set as)) = Max ((\<lambda>a. Ttl (Header a)) ` set as)"
proof -
  from assms have ne: "(\<lambda>a. Ttl (Header a)) ` set as \<noteq> {}" by auto
  have "Max (insert 0 ((\<lambda>a. Ttl (Header a)) ` set as)) =
          max 0 (Max ((\<lambda>a. Ttl (Header a)) ` set as))"
    using ne by simp
  then show ?thesis by (simp add: max_def)
qed

lemma Max_Ttl_pos:
  assumes "\<exists>a\<in>set as. 0 < Ttl (Header a)"
  shows "0 < Max ((\<lambda>a. Ttl (Header a)) ` set as)"
proof -
  from assms obtain a where a: "a \<in> set as" "0 < Ttl (Header a)" by blast
  then have le: "Ttl (Header a) \<le> Max ((\<lambda>a. Ttl (Header a)) ` set as)"
    by (intro Max_ge) auto
  show ?thesis using a(2) le by (rule less_le_trans)
qed

text \<open>
  A count of at most \<open>2 ^ 32 - 1\<close> seconds fits the 64-bit nanosecond count: the
  product in \<^verbatim>\<open>time.Duration(ttl) * time.Second\<close> does not wrap around.
\<close>

lemma sint_of_nat_Second:
  assumes "n < 2 ^ 32"
  shows "sint (word_of_nat n * Second :: 64 word) = int n * 1000000000"
proof -
  have k: "(1000000000 :: 64 word) = word_of_int 1000000000" by simp
  have "(word_of_nat n :: 64 word) * Second = word_of_int (int n) * word_of_int 1000000000"
    unfolding Second_def k by simp
  also have "\<dots> = word_of_int (int n * 1000000000)"
    by (simp only: of_int_mult)
  finally have eq: "(word_of_nat n :: 64 word) * Second = word_of_int (int n * 1000000000)" .
  have "int n < 2 ^ 32" using assms by (simp flip: of_nat_less_iff)
  then have b1: "int n * 1000000000 < 2 ^ 63" by simp
  have "(- (2 ^ 63) :: int) \<le> 0" by simp
  also have "0 \<le> int n * 1000000000" by simp
  finally have b2: "- (2 ^ 63) \<le> int n * 1000000000" .
  have "sint (word_of_int (int n * 1000000000) :: 64 word) =
          signed_take_bit 63 (int n * 1000000000)"
    by (simp only: sint_sbintrunc') simp
  also have "\<dots> = int n * 1000000000"
    using b1 b2 by (rule_tac signed_take_bit_int_eq_self)
  finally show ?thesis using eq by simp
qed

lemma sint_ucast_Second:
  "sint ((ucast (t :: 32 word) :: 64 word) * Second) = uint t * 1000000000"
proof -
  have "unat t < 2 ^ LENGTH(32)" by (rule unsigned_less)
  then have "unat t < 2 ^ 32" by simp
  then have "sint (word_of_nat (unat t) * Second :: 64 word) = int (unat t) * 1000000000"
    by (rule sint_of_nat_Second)
  then show ?thesis by (simp only: of_nat_unat)
qed

lemma sint_Second: "sint Second = 1000000000"
  by (simp add: Second_def)

lemma round_even_1: "round_even a (Suc 0) = a"
  by (simp add: round_even_def)

lemma Seconds_whole:
  assumes "n < 2 ^ 32"
  shows "fst (Seconds (n * 1000000000)) div snd (Seconds (n * 1000000000)) = n"
proof (cases "n = 0")
  case True
  then show ?thesis by (simp add: Seconds_def float64_round_def)
next
  case False
  have "floorlog 2 n \<le> 32"
    using assms by (intro floorlog_leI) simp_all
  then have lt: "\<not> 53 \<le> floorlog 2 n" by simp
  have q: "float64_round 0 1000000000 = (0, 1)"
    by (simp add: float64_round_def)
  have "Seconds (n * 1000000000) = float64_round n 1"
    by (simp add: Seconds_def q Let_def)
  also have "\<dots> = (n * 2 ^ (53 - floorlog 2 n), 2 ^ (53 - floorlog 2 n))"
    using False lt by (simp add: float64_round_def round_even_1 Let_def)
  finally show ?thesis by simp
qed

lemma Seconds_uint32_whole:
  assumes "0 < n" "n < 2 ^ 32"
  shows "0 <s (word_of_nat n * Second :: 64 word)"
    and "Seconds_uint32 codec (word_of_nat n * Second) = word_of_nat n"
proof -
  have s: "sint (word_of_nat n * Second :: 64 word) = int n * 1000000000"
    by (rule sint_of_nat_Second [OF assms(2)])
  show "0 <s (word_of_nat n * Second :: 64 word)"
    using assms(1) by (simp add: word_sless_alt s)
  have "nat (int n * 1000000000) = n * 1000000000"
    by (simp add: nat_mult_distrib)
  then show "Seconds_uint32 codec (word_of_nat n * Second) = word_of_nat n"
    using assms(2) by (simp add: Seconds_uint32_def s Seconds_whole Let_def)
qed

lemma bytes_ex: "bytes_of_string [CHR 0x01, CHR 0x02] = [1, 2]"
  by (simp add: bytes_of_string_def)


lemma Seconds_uint32_frac:
  "Seconds_uint32 codec 500000000 = 0"
  "Seconds_uint32 codec 16777216999999999 = 16777217"
  by (simp_all add: Seconds_uint32_def Seconds_def float64_round_def round_even_def Let_def
      compute_floorlog)

lemma sless_frac: "0 <s (500000000 :: Duration)" "0 <s (16777216999999999 :: Duration)"
  by (simp_all add: word_sless_alt)

lemma sless_ex: "0 <s 10 * Second" "0 <s 50 * Second" "\<not> 0 <s (0 :: Duration)"
  by (simp_all add: Second_def word_sless_alt)

lemmas ex_defs = broker_ex_def codec_ex_def client_ex_def heap_ex_def rec_ex_def
  prefixKey_def cleanKey_def CacheStorePrefix_def CacheChannelName_def cacheReason_def chanCap_def

lemma getTTL_ex: "getTTL (dns_ex\<lparr>Compress := True\<rparr>) = 300 * Second"
  by (simp add: getTTL_def dns_ex_def rr_ex_def)

lemma restamp_ex:
  "dns_ex\<lparr>Answer := map (\<lambda>a. a\<lparr>Header := (Header a)\<lparr>Ttl := t\<rparr>\<rparr>) (Answer dns_ex)\<rparr>
     = dns_ex\<lparr>Answer := [rr_ex t, rr_ex t]\<rparr>"
  by (simp add: dns_ex_def rr_ex_def)

subsection \<open>Key namespacing\<close>

text \<open>
  C6. For every string \<open>k\<close>, the empty string and strings that already contain the
  prefix literal included, stripping the namespace prefix from the prefixed key gives
  back \<open>k\<close>: \<open>cleanKey (prefixKey k) = k\<close>.
\<close>

theorem cleanKey_prefixKey: "cleanKey (prefixKey k) = k"
  by (simp add: cleanKey_def prefixKey_def)

subsection \<open>TTL policy\<close>

text \<open>
  C4. For every answer, \<^verbatim>\<open>getTTL\<close> returns the maximum TTL among the records of the
  answer section, as a duration in seconds (the count of seconds times
  \<^verbatim>\<open>time.Second\<close>, without wrap-around), when at least one record's TTL is positive;
  it returns the default of one second when all record TTLs are zero or there is no
  record.
\<close>

theorem getTTL_max_or_default:
  "((\<exists>a\<in>set (Answer dns). 0 < Ttl (Header a)) \<longrightarrow>
      getTTL dns = ucast (Max ((\<lambda>a. Ttl (Header a)) ` set (Answer dns))) * Second \<and>
      sint (getTTL dns) = uint (Max ((\<lambda>a. Ttl (Header a)) ` set (Answer dns))) * 1000000000)
   \<and> ((\<forall>a\<in>set (Answer dns). Ttl (Header a) = 0) \<longrightarrow>
      getTTL dns = defaultCacheTime \<and> sint (getTTL dns) = 1000000000)"
proof (intro conjI impI)
  assume pos: "\<exists>a\<in>set (Answer dns). 0 < Ttl (Header a)"
  have m: "getTTL_loop (Answer dns) 0 = Max ((\<lambda>a. Ttl (Header a)) ` set (Answer dns))"
    by (simp only: getTTL_loop_Max Max_Ttl_insert_0 [OF pos])
  have nz: "Max ((\<lambda>a. Ttl (Header a)) ` set (Answer dns)) \<noteq> 0"
    using Max_Ttl_pos [OF pos] by simp
  show g: "getTTL dns = ucast (Max ((\<lambda>a. Ttl (Header a)) ` set (Answer dns))) * Second"
    using nz by (simp add: getTTL_def m Let_def)
  show "sint (getTTL dns) = uint (Max ((\<lambda>a. Ttl (Header a)) ` set (Answer dns))) * 1000000000"
    by (simp only: g sint_ucast_Second)
next
  assume z: "\<forall>a\<in>set (Answer dns). Ttl (Header a) = 0"
  show g: "getTTL dns = defaultCacheTime"
    by (simp add: getTTL_def getTTL_loop_zero [OF z])
  show "sint (getTTL dns) = 1000000000"
    by (simp add: g defaultCacheTime_def sint_Second)
qed

theorem getTTL_max_or_default_witness:
  "sint (getTTL dns_ex) = 300 * 1000000000
   \<and> getTTL (dns_ex\<lparr>Answer := [rr_ex 0, rr_ex 0]\<rparr>) = defaultCacheTime
   \<and> getTTL (dns_ex\<lparr>Answer := []\<rparr>) = defaultCacheTime"
proof -
  have p: "\<exists>a\<in>set (Answer dns_ex). 0 < Ttl (Header a)"
    by (simp add: dns_ex_def rr_ex_def)
  have mx: "Max ((\<lambda>a. Ttl (Header a)) ` set (Answer dns_ex)) = 300"
    by (simp add: dns_ex_def rr_ex_def)
  have "sint (getTTL dns_ex) =
          uint (Max ((\<lambda>a. Ttl (Header a)) ` set (Answer dns_ex))) * 1000000000"
    using getTTL_max_or_default [of dns_ex] p by blast
  then have a: "sint (getTTL dns_ex) = 300 * 1000000000"
    by (simp only: mx) simp
  have z: "\<forall>a\<in>set (Answer (dns_ex\<lparr>Answer := [rr_ex 0, rr_ex 0]\<rparr>)). Ttl (Header a) = 0"
    by (simp add: rr_ex_def)
  have b: "getTTL (dns_ex\<lparr>Answer := [rr_ex 0, rr_ex 0]\<rparr>) = defaultCacheTime"
    using getTTL_max_or_default [of "dns_ex\<lparr>Answer := [rr_ex 0, rr_ex 0]\<rparr>"] z by blast
  have e: "\<forall>a\<in>set (Answer (dns_ex\<lparr>Answer := []\<rparr>)). Ttl (Header a) = 0"
    by simp
  have c: "getTTL (dns_ex\<lparr>Answer := []\<rparr>) = defaultCacheTime"
    using getTTL_max_or_default [of "dns_ex\<lparr>Answer := []\<rparr>"] e by blast
  show ?thesis using a b c by blast
qed

text \<open>
  C5 (as stated) fails on "exactly that remaining value" for remaining TTLs that are
  not whole seconds: the TTL field counts seconds, and the value stamped is
  \<^verbatim>\<open>uint32(ttl.Seconds())\<close>. A remaining TTL of half a second is positive and stamps
  0 on every record; a remaining TTL of 16777216.999999999 seconds stamps 16777217,
  the float64 sum being rounded up.
\<close>

theorem convertMessage_restamp_fraction:
  "0 <s (500000000 :: Duration)
   \<and> convertMessage codec_ex \<lparr>K = ''a'', M = [1, 2], C = []\<rparr> 500000000 =
       Inr (rec_ex ''a'' (dns_ex\<lparr>Answer := [rr_ex 0, rr_ex 0]\<rparr>))
   \<and> 0 <s (16777216999999999 :: Duration)
   \<and> convertMessage codec_ex \<lparr>K = ''a'', M = [1, 2], C = []\<rparr> 16777216999999999 =
       Inr (rec_ex ''a'' (dns_ex\<lparr>Answer := [rr_ex 16777217, rr_ex 16777217]\<rparr>))"
  by (simp add: convertMessage_def sless_frac Seconds_uint32_frac restamp_ex
      codec_ex_def rec_ex_def cacheReason_def)

text \<open>
  C5 (as amended). For every decoded answer and remaining TTL: when the remaining TTL
  is positive, the restamp step of \<^verbatim>\<open>convertMessage\<close> sets the TTL field of every
  record of the answer section to \<^verbatim>\<open>uint32(ttl.Seconds())\<close>, the remaining value in
  seconds as the float64 arithmetic and the conversion give it, and changes nothing
  else of the message; for a remaining TTL of \<open>n\<close> whole seconds,
  \<open>0 < n < 2 ^ 32\<close>, that is exactly \<open>n\<close>. When the remaining TTL is zero or
  negative, the decoded answer is returned as it was unpacked.
\<close>

theorem convertMessage_restamp:
  assumes "Unpack codec (M message) = Inr dns"
  shows "(0 <s ttl \<longrightarrow>
           (\<exists>r. convertMessage codec message ttl = Inr r
              \<and> length (Answer (Res (Response r))) = length (Answer dns)
              \<and> (\<forall>a\<in>set (Answer (Res (Response r))). Ttl (Header a) = Seconds_uint32 codec ttl)
              \<and> (\<forall>i<length (Answer dns).
                    Answer (Res (Response r)) ! i =
                      (Answer dns ! i)\<lparr>Header :=
                         (Header (Answer dns ! i))\<lparr>Ttl := Seconds_uint32 codec ttl\<rparr>\<rparr>)
              \<and> (Res (Response r))\<lparr>Answer := Answer dns\<rparr> = dns))
       \<and> (0 < n \<and> n < 2 ^ 32 \<and> ttl = word_of_nat n * Second \<longrightarrow>
             0 <s ttl \<and> Seconds_uint32 codec ttl = word_of_nat n)
       \<and> (\<not> 0 <s ttl \<longrightarrow>
             convertMessage codec message ttl =
               Inr \<lparr>Key = K message,
                    Response = \<lparr>Res = dns, Reason = cacheReason, RType = ResponseTypeCACHED\<rparr>\<rparr>)"
proof (intro conjI impI)
  assume "0 <s ttl"
  then show "\<exists>r. convertMessage codec message ttl = Inr r
              \<and> length (Answer (Res (Response r))) = length (Answer dns)
              \<and> (\<forall>a\<in>set (Answer (Res (Response r))). Ttl (Header a) = Seconds_uint32 codec ttl)
              \<and> (\<forall>i<length (Answer dns).
                    Answer (Res (Response r)) ! i =
                      (Answer dns ! i)\<lparr>Header :=
                         (Header (Answer dns ! i))\<lparr>Ttl := Seconds_uint32 codec ttl\<rparr>\<rparr>)
              \<and> (Res (Response r))\<lparr>Answer := Answer dns\<rparr> = dns"
    using assms by (simp add: convertMessage_def)
next
  assume "0 < n \<and> n < 2 ^ 32 \<and> ttl = word_of_nat n * Second"
  then show "0 <s ttl" "Seconds_uint32 codec ttl = word_of_nat n"
    using Seconds_uint32_whole(1) [of n] Seconds_uint32_whole(2) [of n codec] by simp_all
next
  assume "\<not> 0 <s ttl"
  then show "convertMessage codec message ttl =
               Inr \<lparr>Key = K message,
                    Response = \<lparr>Res = dns, Reason = cacheReason, RType = ResponseTypeCACHED\<rparr>\<rparr>"
    using assms by (simp add: convertMessage_def)
qed

theorem convertMessage_restamp_witness:
  "Unpack codec_ex (M \<lparr>K = ''a'', M = [1, 2], C = []\<rparr>) = Inr dns_ex
   \<and> 0 <s 10 * Second
   \<and> Seconds_uint32 codec_ex (10 * Second) = 10
   \<and> (\<exists>r. convertMessage codec_ex \<lparr>K = ''a'', M = [1, 2], C = []\<rparr> (10 * Second) = Inr r
        \<and> length (Answer (Res (Response r))) = 2
        \<and> Answer (Res (Response r)) ! 0 = rr_ex 10
        \<and> Answer (Res (Response r)) ! 1 = rr_ex 10)
   \<and> \<not> 0 <s (0 :: Duration)
   \<and> convertMessage codec_ex \<lparr>K = ''a'', M = [1, 2], C = []\<rparr> 0 =
       Inr \<lparr>Key = ''a'',
            Response = \<lparr>Res = dns_ex, Reason = cacheReason, RType = ResponseTypeCACHED\<rparr>\<rparr>"
proof -
  have u: "Unpack codec_ex (M \<lparr>K = ''a'', M = [1, 2], C = []\<rparr>) = Inr dns_ex"
    by (simp add: codec_ex_def)
  have w64: "(word_of_nat 10 :: 64 word) = 10" by simp
  have w32: "(word_of_nat 10 :: 32 word) = 10" by simp
  have len: "length (Answer dns_ex) = 2" by (simp add: dns_ex_def)
  have a0: "(Answer dns_ex ! 0)\<lparr>Header := (Header (Answer dns_ex ! 0))\<lparr>Ttl := 10\<rparr>\<rparr> = rr_ex 10"
    by (simp add: dns_ex_def rr_ex_def)
  have a1: "(Answer dns_ex ! 1)\<lparr>Header := (Header (Answer dns_ex ! 1))\<lparr>Ttl := 10\<rparr>\<rparr> = rr_ex 10"
    by (simp add: dns_ex_def rr_ex_def)
  note th = convertMessage_restamp [OF u, of "word_of_nat 10 * Second" 10]
  have pre: "0 < (10 :: nat) \<and> (10 :: nat) < 2 ^ 32
      \<and> (word_of_nat 10 * Second :: Duration) = word_of_nat 10 * Second"
    by simp
  have c2: "0 <s (word_of_nat 10 * Second :: Duration)
      \<and> Seconds_uint32 codec_ex (word_of_nat 10 * Second) = word_of_nat 10"
    by (rule th [THEN conjunct2, THEN conjunct1, THEN mp, OF pre])
  have s1: "0 <s 10 * Second" using c2 [THEN conjunct1] by (simp only: w64)
  have s2: "Seconds_uint32 codec_ex (10 * Second) = 10" using c2 [THEN conjunct2] by (simp only: w64 w32)
  from th [THEN conjunct1, THEN mp, OF c2 [THEN conjunct1]]
  obtain r where r: "convertMessage codec_ex \<lparr>K = ''a'', M = [1, 2], C = []\<rparr> (word_of_nat 10 * Second) = Inr r"
    "length (Answer (Res (Response r))) = length (Answer dns_ex)"
    "\<forall>i<length (Answer dns_ex).
        Answer (Res (Response r)) ! i =
          (Answer dns_ex ! i)\<lparr>Header :=
             (Header (Answer dns_ex ! i))\<lparr>Ttl := Seconds_uint32 codec_ex (word_of_nat 10 * Second)\<rparr>\<rparr>"
    by blast
  have r1: "convertMessage codec_ex \<lparr>K = ''a'', M = [1, 2], C = []\<rparr> (10 * Second) = Inr r"
    using r(1) by (simp only: w64)
  have r2: "length (Answer (Res (Response r))) = 2"
    using r(2) by (simp only: len)
  have lt: "0 < length (Answer dns_ex)" "1 < length (Answer dns_ex)"
    by (simp_all only: len)
  have i0: "Answer (Res (Response r)) ! 0 = rr_ex 10"
    using r(3) [rule_format, OF lt(1)] by (simp only: w64 s2 a0)
  have i1: "Answer (Res (Response r)) ! 1 = rr_ex 10"
    using r(3) [rule_format, OF lt(2)] by (simp only: w64 s2 a1)
  have ex: "\<exists>r. convertMessage codec_ex \<lparr>K = ''a'', M = [1, 2], C = []\<rparr> (10 * Second) = Inr r
        \<and> length (Answer (Res (Response r))) = 2
        \<and> Answer (Res (Response r)) ! 0 = rr_ex 10
        \<and> Answer (Res (Response r)) ! 1 = rr_ex 10"
    using r1 r2 i0 i1 by blast
  have z: "convertMessage codec_ex \<lparr>K = ''a'', M = [1, 2], C = []\<rparr> 0 =
       Inr \<lparr>Key = ''a'',
            Response = \<lparr>Res = dns_ex, Reason = cacheReason, RType = ResponseTypeCACHED\<rparr>\<rparr>"
    using convertMessage_restamp [OF u, of 0 0, THEN conjunct2, THEN conjunct2, THEN mp, OF sless_ex(3)]
    by simp
  show ?thesis using u s1 s2 ex sless_ex(3) z by (intro conjI)
qed

subsection \<open>Publishing\<close>

text \<open>
  C7. Calling \<^verbatim>\<open>PublishCache\<close> with an empty key or a nil answer returns at once and
  leaves the client as it was: nothing is put on the send buffer, no command goes to
  the broker (no store write, no broadcast) and nothing is logged.
\<close>

theorem PublishCache_invalid:
  "key = [] \<or> message = None \<Longrightarrow> PublishCache c key message = Done c"
  by (auto simp: PublishCache_def)

theorem PublishCache_invalid_witness:
  "PublishCache client_ex [] (Some 0) = Done client_ex
   \<and> PublishCache client_ex ''example.com/A'' None = Done client_ex"
  using PublishCache_invalid [of "[]" "Some 0" client_ex]
    PublishCache_invalid [of "''example.com/A''" None client_ex]
  by simp

subsection \<open>The inbound branch\<close>

text \<open>
  C1. For every inbound broadcast message whose envelope decodes, if the origin
  identifier in it equals the client's own identifier, the branch completes without
  sending anything on \<^verbatim>\<open>CacheChannel\<close>, whatever the key and the payload are.
\<close>

theorem startup_recv_self_origin:
  assumes "Unmarshal codec (bytes_of_string (Payload m)) = Inr rm"
    and "C rm = client_id c"
  shows "\<exists>c'. startup_step b codec (Received (Some m)) (c, h) = Done (c', h)
           \<and> CacheChannel c' = CacheChannel c
           \<and> sendBuffer c' = sendBuffer c
           \<and> client c' = client c"
  using assms by (simp add: startup_step_def startup_recv_def Let_def)

theorem startup_recv_self_origin_witness:
  "Unmarshal codec_ex (bytes_of_string (Payload \<lparr>Channel = CacheChannelName, Pattern = [], Payload = [CHR 0x03, CHR 0x09]\<rparr>))
     = Inr \<lparr>K = ''example.com/A'', M = [1, 2], C = [9]\<rparr>
   \<and> C \<lparr>K = ''example.com/A'', M = [1, 2], C = [9]\<rparr> = client_id client_ex
   \<and> (\<exists>c'. startup_step broker_ex codec_ex
              (Received (Some \<lparr>Channel = CacheChannelName, Pattern = [], Payload = [CHR 0x03, CHR 0x09]\<rparr>))
              (client_ex, \<lambda>p. dns_ex) = Done (c', \<lambda>p. dns_ex)
         \<and> CacheChannel c' = [])"
proof -
  have u: "Unmarshal codec_ex (bytes_of_string (Payload \<lparr>Channel = CacheChannelName, Pattern = [], Payload = [CHR 0x03, CHR 0x09]\<rparr>))
     = Inr \<lparr>K = ''example.com/A'', M = [1, 2], C = [9]\<rparr>"
    by (simp add: codec_ex_def bytes_of_string_def)
  have i: "C \<lparr>K = ''example.com/A'', M = [1, 2], C = [9]\<rparr> = client_id client_ex"
    by (simp add: client_ex_def)
  from startup_recv_self_origin [OF u i, of broker_ex "\<lambda>p. dns_ex"]
  obtain c' where
    "startup_step broker_ex codec_ex
       (Received (Some \<lparr>Channel = CacheChannelName, Pattern = [], Payload = [CHR 0x03, CHR 0x09]\<rparr>))
       (client_ex, \<lambda>p. dns_ex) = Done (c', \<lambda>p. dns_ex)"
    "CacheChannel c' = CacheChannel client_ex"
    by blast
  then show ?thesis using u i by (auto simp: client_ex_def)
qed

subsection \<open>The outbound branch\<close>

lemma startup_send_head:
  assumes "sendBuffer c = s # rest" and "buf_Message s = Some p"
  shows "\<exists>c'. startup_send b codec (c, h) =
                Done (c', h(p := fst (Pack codec ((h p)\<lparr>Compress := True\<rparr>))))
           \<and> sendBuffer c' = rest \<and> l c' = l c \<and> CacheChannel c' = CacheChannel c
           \<and> client_id c' = client_id c"
  using assms
  by (simp add: startup_send_def Let_def split: sum.splits)


lemma PublishCache_keeps_messages:
  assumes "\<forall>s\<in>set (sendBuffer c). buf_Message s \<noteq> None"
    and "PublishCache c key message = Done c'"
  shows "\<forall>s\<in>set (sendBuffer c'). buf_Message s \<noteq> None"
  using assms by (auto simp: PublishCache_def split: if_splits)

lemma startup_loop_drain:
  "\<forall>s\<in>set (sendBuffer c). buf_Message s \<noteq> None \<Longrightarrow> n = length (sendBuffer c) \<Longrightarrow>
     \<exists>c' h'. startup_loop b codec (replicate n Buffered) (c, h) = Done (c', h')
        \<and> sendBuffer c' = [] \<and> l c' = l c \<and> CacheChannel c' = CacheChannel c"
proof (induction n arbitrary: c h)
  case 0
  then show ?case by simp
next
  case (Suc n)
  then obtain s rest where sr: "sendBuffer c = s # rest"
    by (cases "sendBuffer c") auto
  with Suc.prems obtain p where p: "buf_Message s = Some p" by auto
  let ?h1 = "h(p := fst (Pack codec ((h p)\<lparr>Compress := True\<rparr>)))"
  from startup_send_head [OF sr p, of b codec h]
  obtain c1 where c1: "startup_send b codec (c, h) = Done (c1, ?h1)"
    "sendBuffer c1 = rest" "l c1 = l c" "CacheChannel c1 = CacheChannel c"
    by blast
  have ok: "\<forall>s\<in>set (sendBuffer c1). buf_Message s \<noteq> None"
    using Suc.prems(1) sr c1(2) by simp
  have len: "n = length (sendBuffer c1)"
    using Suc.prems(2) sr c1(2) by simp
  from Suc.IH [OF ok len, of ?h1]
  obtain c' h' where "startup_loop b codec (replicate n Buffered) (c1, ?h1) = Done (c', h')"
    "sendBuffer c' = []" "l c' = l c1" "CacheChannel c' = CacheChannel c1"
    by blast
  then show ?case using c1 by (simp add: startup_step_def)
qed




text \<open>
  C8 (as stated) fails on the part "either failure is logged": with a broker that
  fails both the broadcast and the store write, the outbound branch issues both
  commands and writes nothing to the log.
\<close>

theorem startup_send_failures_not_logged:
  "startup_send broker_ex codec_ex
     (\<lparr>client = [], l = [], client_id = [9],
       sendBuffer = [\<lparr>buf_Key = ''example.com/A'', buf_Message = Some 0\<rparr>],
       CacheChannel = []\<rparr>, heap_ex)
   = Done (\<lparr>client = [(PublishCmd ''blocky_sync'' [3, 9], Some ErrRedis),
                        (SetCmd ''blocky:cache:example.com/A'' [1, 2] (300 * Second), Some ErrRedis)],
            l = [], client_id = [9], sendBuffer = [], CacheChannel = []\<rparr>,
           heap_ex(0 := dns_ex\<lparr>Compress := True\<rparr>))"
  by (simp add: startup_send_def Let_def getTTL_ex ex_defs)

text \<open>
  C8 (as amended). In the outbound branch the store write and the broadcast are
  independent: once the answer is packed, the \<^verbatim>\<open>Set\<close> command is issued whether or
  not the envelope could be marshalled and whatever the broker answered to the
  \<^verbatim>\<open>Publish\<close> command, which is issued before it; the answers of both commands are
  dropped, so a failure is neither logged nor escalated. The branch always completes
  and takes its item off the send buffer, and a send buffer filled by
  \<^verbatim>\<open>PublishCache\<close> is drained to the end whatever fails on the way.
\<close>

theorem startup_send_failures_ignored:
  "(sendBuffer c = s # rest \<and> buf_Message s = Some p \<longrightarrow>
      (\<exists>c'. startup_send b codec (c, h) =
               Done (c', h(p := fst (Pack codec ((h p)\<lparr>Compress := True\<rparr>))))
         \<and> l c' = l c \<and> sendBuffer c' = rest \<and> CacheChannel c' = CacheChannel c
         \<and> client c' = client c @
             (case snd (Pack codec ((h p)\<lparr>Compress := True\<rparr>)) of
                Inl pErr \<Rightarrow> []
              | Inr binRes \<Rightarrow>
                  (case Marshal codec \<lparr>K = buf_Key s, M = binRes, C = client_id c\<rparr> of
                     Inl mErr \<Rightarrow> []
                   | Inr binMsg \<Rightarrow>
                       [(PublishCmd CacheChannelName binMsg, Publish b CacheChannelName binMsg)])
                  @ [(SetCmd (prefixKey (buf_Key s)) binRes
                        (getTTL (fst (Pack codec ((h p)\<lparr>Compress := True\<rparr>)))),
                      Set b (prefixKey (buf_Key s)) binRes
                        (getTTL (fst (Pack codec ((h p)\<lparr>Compress := True\<rparr>)))))])))
   \<and> ((\<forall>s\<in>set (sendBuffer c). buf_Message s \<noteq> None) \<longrightarrow>
        (\<exists>c' h'. startup_loop b codec (replicate (length (sendBuffer c)) Buffered) (c, h) = Done (c', h')
           \<and> sendBuffer c' = [] \<and> l c' = l c))"
proof (intro conjI impI)
  assume "sendBuffer c = s # rest \<and> buf_Message s = Some p"
  then show "\<exists>c'. startup_send b codec (c, h) =
               Done (c', h(p := fst (Pack codec ((h p)\<lparr>Compress := True\<rparr>))))
         \<and> l c' = l c \<and> sendBuffer c' = rest \<and> CacheChannel c' = CacheChannel c
         \<and> client c' = client c @
             (case snd (Pack codec ((h p)\<lparr>Compress := True\<rparr>)) of
                Inl pErr \<Rightarrow> []
              | Inr binRes \<Rightarrow>
                  (case Marshal codec \<lparr>K = buf_Key s, M = binRes, C = client_id c\<rparr> of
                     Inl mErr \<Rightarrow> []
                   | Inr binMsg \<Rightarrow>
                       [(PublishCmd CacheChannelName binMsg, Publish b CacheChannelName binMsg)])
                  @ [(SetCmd (prefixKey (buf_Key s)) binRes
                        (getTTL (fst (Pack codec ((h p)\<lparr>Compress := True\<rparr>)))),
                      Set b (prefixKey (buf_Key s)) binRes
                        (getTTL (fst (Pack codec ((h p)\<lparr>Compress := True\<rparr>)))))])"
    by (simp add: startup_send_def Let_def split: sum.splits)
next
  assume "\<forall>s\<in>set (sendBuffer c). buf_Message s \<noteq> None"
  from startup_loop_drain [OF this refl, of b codec h]
  show "\<exists>c' h'. startup_loop b codec (replicate (length (sendBuffer c)) Buffered) (c, h) = Done (c', h')
           \<and> sendBuffer c' = [] \<and> l c' = l c"
    by blast
qed

theorem startup_send_failures_ignored_witness:
  "(\<exists>c'. startup_send broker_ex codec_ex
            (client_ex\<lparr>sendBuffer := [\<lparr>buf_Key = ''example.com/A'', buf_Message = Some 0\<rparr>]\<rparr>,
             heap_ex)
          = Done (c', heap_ex(0 := dns_ex\<lparr>Compress := True\<rparr>))
        \<and> l c' = [] \<and> sendBuffer c' = []
        \<and> client c' =
            [(PublishCmd ''blocky_sync'' [3, 9], Some ErrRedis),
             (SetCmd ''blocky:cache:example.com/A'' [1, 2] (300 * Second), Some ErrRedis)])
   \<and> (\<exists>c' h'. startup_loop broker_ex codec_ex [Buffered, Buffered]
                  (client_ex\<lparr>sendBuffer := [\<lparr>buf_Key = ''example.com/A'', buf_Message = Some 0\<rparr>,
                                              \<lparr>buf_Key = ''other'', buf_Message = Some 1\<rparr>]\<rparr>,
                   heap_ex)
                = Done (c', h')
        \<and> sendBuffer c' = [] \<and> l c' = [])"
proof -
  let ?item = "\<lparr>buf_Key = ''example.com/A'', buf_Message = Some 0\<rparr>"
  let ?c = "client_ex\<lparr>sendBuffer := [?item]\<rparr>"
  let ?c2 = "client_ex\<lparr>sendBuffer := [?item, \<lparr>buf_Key = ''other'', buf_Message = Some 1\<rparr>]\<rparr>"
  have q: "sendBuffer ?c = ?item # [] \<and> buf_Message ?item = Some 0"
    by simp
  have inv: "\<forall>s\<in>set (sendBuffer ?c2). buf_Message s \<noteq> None"
    by simp
  have n: "replicate (length (sendBuffer ?c2)) Buffered = [Buffered, Buffered]"
    by (simp add: numeral_2_eq_2)
  have a: "\<exists>c'. startup_send broker_ex codec_ex (?c, heap_ex)
          = Done (c', heap_ex(0 := dns_ex\<lparr>Compress := True\<rparr>))
        \<and> l c' = [] \<and> sendBuffer c' = []
        \<and> client c' =
            [(PublishCmd ''blocky_sync'' [3, 9], Some ErrRedis),
             (SetCmd ''blocky:cache:example.com/A'' [1, 2] (300 * Second), Some ErrRedis)]"
    using startup_send_failures_ignored
      [of ?c ?item "[]" 0 broker_ex codec_ex heap_ex, THEN conjunct1, THEN mp, OF q]
    by (auto simp: getTTL_ex ex_defs)
  have b: "\<exists>c' h'. startup_loop broker_ex codec_ex [Buffered, Buffered] (?c2, heap_ex) = Done (c', h')
        \<and> sendBuffer c' = [] \<and> l c' = []"
    using startup_send_failures_ignored
      [of ?c2 ?item "[]" 0 broker_ex codec_ex heap_ex, THEN conjunct2, THEN mp, OF inv]
    unfolding n by (auto simp: client_ex_def)
  show ?thesis using a b by (intro conjI)
qed

subsection \<open>Bulk load\<close>

lemma convertMessage_Unpack:
  "convertMessage codec message ttl = Inl e \<longleftrightarrow> Unpack codec (M message) = Inl e"
  "(\<exists>r. convertMessage codec message ttl = Inr r) \<longleftrightarrow> (\<exists>dns. Unpack codec (M message) = Inr dns)"
  by (auto simp: convertMessage_def split: sum.splits)

lemma convertMessage_tag:
  "convertMessage codec message ttl = Inr r \<Longrightarrow>
     Key r = K message \<and> RType (Response r) = ResponseTypeCACHED \<and> Reason (Response r) = cacheReason"
  by (auto simp: convertMessage_def split: sum.splits)









subsection \<open>Provenance of forwarded records\<close>

lemma getResponse_tag:
  "getResponse b codec c key = (c', res) \<Longrightarrow>
     CacheChannel c' = CacheChannel c
     \<and> (\<forall>r. res = Inr r \<longrightarrow>
           RType (Response r) = ResponseTypeCACHED \<and> Reason (Response r) = cacheReason)"
  by (auto simp: getResponse_def Let_def split: sum.splits dest: convertMessage_tag)

lemma GetRedisCache_loop_tag:
  "GetRedisCache_loop b codec c keys = Done c' \<Longrightarrow>
     \<exists>rs. CacheChannel c' = CacheChannel c @ rs
        \<and> (\<forall>r\<in>set rs. RType (Response r) = ResponseTypeCACHED \<and> Reason (Response r) = cacheReason)"
proof (induction keys arbitrary: c)
  case Nil
  then show ?case by simp
next
  case (Cons key keys)
  obtain c1 res where g: "getResponse b codec c key = (c1, res)"
    by (cases "getResponse b codec c key")
  note t = getResponse_tag [OF g]
  show ?case
  proof (cases res)
    case (Inl e)
    let ?c2 = "c1\<lparr>l := l c1 @ [Error ''GetRedisCache '' e]\<rparr>"
    have "GetRedisCache_loop b codec ?c2 keys = Done c'"
      using Cons.prems g Inl by simp
    from Cons.IH [OF this] show ?thesis using t by simp
  next
    case (Inr r)
    show ?thesis
    proof (cases "length (CacheChannel c1) < chanCap")
      case True
      let ?c2 = "c1\<lparr>CacheChannel := CacheChannel c1 @ [r]\<rparr>"
      have "GetRedisCache_loop b codec ?c2 keys = Done c'"
        using Cons.prems g Inr True by (simp add: send_CacheChannel_def)
      from Cons.IH [OF this]
      obtain rs where rs: "CacheChannel c' = CacheChannel ?c2 @ rs"
        "\<forall>r\<in>set rs. RType (Response r) = ResponseTypeCACHED \<and> Reason (Response r) = cacheReason"
        by blast
      have "CacheChannel c' = CacheChannel c @ (r # rs)"
        using rs(1) t by simp
      moreover have "\<forall>x\<in>set (r # rs). RType (Response x) = ResponseTypeCACHED \<and> Reason (Response x) = cacheReason"
        using rs(2) t Inr by simp
      ultimately show ?thesis by blast
    next
      case False
      then show ?thesis using Cons.prems g Inr by (simp add: send_CacheChannel_def)
    qed
  qed
qed

lemma startup_recv_tag:
  "startup_recv codec c msg = Done c' \<Longrightarrow>
     \<exists>rs. CacheChannel c' = CacheChannel c @ rs
        \<and> (\<forall>r\<in>set rs. RType (Response r) = ResponseTypeCACHED \<and> Reason (Response r) = cacheReason)"
  by (auto simp: startup_recv_def send_CacheChannel_def Let_def
      split: option.splits if_splits sum.splits dest: convertMessage_tag)

text \<open>
  C9 (as stated) fails: a record carries no provenance tag. The inbound branch and the
  bulk loader build their records with the same function, and here they forward the
  very same record.
\<close>

theorem same_record_from_both_paths:
  "startup_recv codec_ex client_ex
       (Some \<lparr>Channel = ''blocky_sync'', Pattern = [], Payload = [CHR 0x03, CHR 0x08]\<rparr>)
     = Done \<lparr>client = [], l = [Debug ''Received message: ''], client_id = [9],
             sendBuffer = [], CacheChannel = [rec_ex ''example.com/A'' dns_ex]\<rparr>
   \<and> GetRedisCache broker_one codec_ex client_ex
     = Done \<lparr>client = [(ScanCmd ''blocky:cache:*'', None),
                       (GetCmd ''blocky:cache:example.com/A'', None),
                       (TTLCmd ''blocky:cache:example.com/A'', None)],
             l = [Debug ''GetRedisCache''], client_id = [9],
             sendBuffer = [], CacheChannel = [rec_ex ''example.com/A'' dns_ex]\<rparr>"
  by (simp add: startup_recv_def GetRedisCache_def getResponse_def convertMessage_def
      send_CacheChannel_def Let_def bytes_of_string_def sless_ex broker_one_def ex_defs)

text \<open>
  C9 (as amended). Every record forwarded to the consumer, by the inbound branch and by
  the bulk loader alike, carries the response type \<^verbatim>\<open>ResponseTypeCACHED\<close> and the
  reason \<^verbatim>\<open>EXTERNAL_CACHE\<close>; nothing in a record tells the two paths apart.
\<close>

theorem forwarded_records_same_tag:
  "(startup_recv codec c msg = Done c' \<longrightarrow>
      (\<exists>rs. CacheChannel c' = CacheChannel c @ rs
         \<and> (\<forall>r\<in>set rs. RType (Response r) = ResponseTypeCACHED
                \<and> Reason (Response r) = ''EXTERNAL_CACHE'')))
   \<and> (GetRedisCache b codec c = Done c'' \<longrightarrow>
      (\<exists>rs. CacheChannel c'' = CacheChannel c @ rs
         \<and> (\<forall>r\<in>set rs. RType (Response r) = ResponseTypeCACHED
                \<and> Reason (Response r) = ''EXTERNAL_CACHE'')))"
proof (intro conjI impI)
  assume "startup_recv codec c msg = Done c'"
  from startup_recv_tag [OF this]
  show "\<exists>rs. CacheChannel c' = CacheChannel c @ rs
         \<and> (\<forall>r\<in>set rs. RType (Response r) = ResponseTypeCACHED
                \<and> Reason (Response r) = ''EXTERNAL_CACHE'')"
    by (simp add: cacheReason_def)
next
  assume "GetRedisCache b codec c = Done c''"
  then have "GetRedisCache_loop b codec
       (c\<lparr>l := l c @ [Debug ''GetRedisCache''],
          client := client c @ [(ScanCmd (prefixKey ''*''), None)]\<rparr>)
       (Scan b (prefixKey ''*'')) = Done c''"
    by (simp add: GetRedisCache_def)
  from GetRedisCache_loop_tag [OF this]
  show "\<exists>rs. CacheChannel c'' = CacheChannel c @ rs
         \<and> (\<forall>r\<in>set rs. RType (Response r) = ResponseTypeCACHED
                \<and> Reason (Response r) = ''EXTERNAL_CACHE'')"
    by (simp add: cacheReason_def)
qed

theorem forwarded_records_same_tag_witness:
  "(\<exists>c' r. startup_recv codec_ex client_ex
              (Some \<lparr>Channel = ''blocky_sync'', Pattern = [], Payload = [CHR 0x03, CHR 0x08]\<rparr>) = Done c'
        \<and> CacheChannel c' = [r]
        \<and> RType (Response r) = ResponseTypeCACHED \<and> Reason (Response r) = ''EXTERNAL_CACHE'')
   \<and> (\<exists>c' r. GetRedisCache broker_one codec_ex client_ex = Done c'
        \<and> CacheChannel c' = [r]
        \<and> RType (Response r) = ResponseTypeCACHED \<and> Reason (Response r) = ''EXTERNAL_CACHE'')"
proof -
  let ?msg = "Some \<lparr>Channel = ''blocky_sync'', Pattern = [], Payload = [CHR 0x03, CHR 0x08]\<rparr>"
  let ?c1 = "\<lparr>client = [], l = [Debug ''Received message: ''], client_id = [9],
             sendBuffer = [], CacheChannel = [rec_ex ''example.com/A'' dns_ex]\<rparr>"
  let ?c2 = "\<lparr>client = [(ScanCmd ''blocky:cache:*'', None),
                       (GetCmd ''blocky:cache:example.com/A'', None),
                       (TTLCmd ''blocky:cache:example.com/A'', None)],
             l = [Debug ''GetRedisCache''], client_id = [9],
             sendBuffer = [], CacheChannel = [rec_ex ''example.com/A'' dns_ex]\<rparr>"
  have r1: "startup_recv codec_ex client_ex ?msg = Done ?c1"
    by (simp add: startup_recv_def convertMessage_def
      send_CacheChannel_def Let_def bytes_of_string_def sless_ex ex_defs)
  have r2: "GetRedisCache broker_one codec_ex client_ex = Done ?c2"
    by (simp add: GetRedisCache_def getResponse_def convertMessage_def
      send_CacheChannel_def Let_def bytes_of_string_def sless_ex broker_one_def ex_defs)
  note t = forwarded_records_same_tag [of codec_ex client_ex ?msg ?c1 broker_one ?c2]
  from t [THEN conjunct1, THEN mp, OF r1]
  have a: "RType (Response (rec_ex ''example.com/A'' dns_ex)) = ResponseTypeCACHED
      \<and> Reason (Response (rec_ex ''example.com/A'' dns_ex)) = ''EXTERNAL_CACHE''"
    by (auto simp: client_ex_def)
  from t [THEN conjunct2, THEN mp, OF r2]
  have b: "RType (Response (rec_ex ''example.com/A'' dns_ex)) = ResponseTypeCACHED
      \<and> Reason (Response (rec_ex ''example.com/A'' dns_ex)) = ''EXTERNAL_CACHE''"
    by (auto simp: client_ex_def)
  have "CacheChannel ?c1 = [rec_ex ''example.com/A'' dns_ex]" "CacheChannel ?c2 = [rec_ex ''example.com/A'' dns_ex]"
    by simp_all
  with r1 r2 a b show ?thesis by blast
qed

subsection \<open>Round trip of the envelope\<close>

text \<open>
  C2 fails on the code for a key that is not valid UTF-8. \<^verbatim>\<open>PublishCache\<close> accepts
  the key FF, and the outbound branch hands it to \<^verbatim>\<open>json.Marshal\<close> as it is; the
  envelope broadcast carries the replacement character in its place, and the peer
  forwards the key that \<^verbatim>\<open>json.Unmarshal\<close> returns, the bytes EF BF BD, with the
  answer.
\<close>

theorem publish_invalid_utf8_key:
  "PublishCache client_ex [CHR 0xFF] (Some 0) =
     Done (client_ex\<lparr>sendBuffer := [\<lparr>buf_Key = [CHR 0xFF], buf_Message = Some 0\<rparr>]\<rparr>)
   \<and> startup_send broker_one codec_json
       (client_ex\<lparr>sendBuffer := [\<lparr>buf_Key = [CHR 0xFF], buf_Message = Some 0\<rparr>]\<rparr>, heap_ex)
     = Done (\<lparr>client = [(PublishCmd ''blocky_sync'' (bytes_of_string payload_ff), None),
                          (SetCmd (''blocky:cache:'' @ [CHR 0xFF]) [1, 2] (300 * Second), None)],
              l = [], client_id = [9], sendBuffer = [], CacheChannel = []\<rparr>,
             heap_ex(0 := dns_ex\<lparr>Compress := True\<rparr>))
   \<and> startup_recv codec_json (client_ex\<lparr>client_id := [8]\<rparr>)
       (Some \<lparr>Channel = ''blocky_sync'', Pattern = [], Payload = payload_ff\<rparr>)
     = Done \<lparr>client = [], l = [Debug ''Received message: ''], client_id = [8],
             sendBuffer = [],
             CacheChannel = [rec_ex [CHR 0xEF, CHR 0xBF, CHR 0xBD] dns_ex]\<rparr>"
proof -
  have ne: "0 < length payload_ff" by (simp add: payload_ff_def)
  have 1: "PublishCache client_ex [CHR 0xFF] (Some 0) =
     Done (client_ex\<lparr>sendBuffer := [\<lparr>buf_Key = [CHR 0xFF], buf_Message = Some 0\<rparr>]\<rparr>)"
    by (simp add: PublishCache_def client_ex_def chanCap_def)
  have 2: "startup_send broker_one codec_json
       (client_ex\<lparr>sendBuffer := [\<lparr>buf_Key = [CHR 0xFF], buf_Message = Some 0\<rparr>]\<rparr>, heap_ex)
     = Done (\<lparr>client = [(PublishCmd ''blocky_sync'' (bytes_of_string payload_ff), None),
                          (SetCmd (''blocky:cache:'' @ [CHR 0xFF]) [1, 2] (300 * Second), None)],
              l = [], client_id = [9], sendBuffer = [], CacheChannel = []\<rparr>,
             heap_ex(0 := dns_ex\<lparr>Compress := True\<rparr>))"
    by (simp add: startup_send_def Let_def getTTL_ex codec_json_def broker_one_def
        codec_ex_def client_ex_def heap_ex_def prefixKey_def CacheStorePrefix_def
        CacheChannelName_def)
  have 3: "startup_recv codec_json (client_ex\<lparr>client_id := [8]\<rparr>)
       (Some \<lparr>Channel = ''blocky_sync'', Pattern = [], Payload = payload_ff\<rparr>)
     = Done \<lparr>client = [], l = [Debug ''Received message: ''], client_id = [8],
             sendBuffer = [],
             CacheChannel = [rec_ex [CHR 0xEF, CHR 0xBF, CHR 0xBD] dns_ex]\<rparr>"
    using ne
    by (simp add: startup_recv_def convertMessage_def send_CacheChannel_def Let_def
        sless_ex codec_json_def codec_ex_def client_ex_def rec_ex_def cacheReason_def
        chanCap_def)
  show ?thesis using 1 2 3 by (intro conjI)
qed

end
